theory Spec2Isabelle
  imports Main "HOL-Library.Word" "HOL-Library.Sublist"
begin

section \<open>Data model of main.go\<close>

text \<open>
  Go's \<open>int64\<close> is a 64-bit word: \<open>+\<close>, \<open>-\<close> and \<open>*\<close> wrap around, the order
  is the signed one (\<open><s\<close>, read through \<open>sint\<close>). Go's \<open>int\<close> (status codes, the
  \<open>triaged\<close> counter) never comes near its bounds here and is \<open>int\<close>.
\<close>

type_synonym int64 = "64 word"

record Publisher =
  PublisherName :: string
  Avatars :: "(string \<times> string) list"

record Date =
  TS :: int64
  Rel :: string

record Package =
  Name :: string
  Description :: string
  Maintainers :: "string list"
  Publisher :: Publisher
  Date :: Date
  Version :: string

record Data =
  Title :: string
  Dependency :: string
  Packages :: "Package list"

text \<open>\<open>strings.HasPrefix(s, prefix)\<close>\<close>

definition strings_HasPrefix :: "string \<Rightarrow> string \<Rightarrow> bool" where
  "strings_HasPrefix s pre = prefix pre s"

definition IsScoped :: "Package \<Rightarrow> bool" where
  "IsScoped p = strings_HasPrefix (Name p) ''@''"

subsection \<open>The HTTP boundary\<close>

text \<open>
  A request as the code builds it, and the part of a response the code reads:
  the status code, the request that finally produced the response (after the client
  followed redirects) with the path of its URL, and the body.
\<close>

record URL =
  String :: string
  Path :: string

record Request =
  Method :: string
  URL :: URL
  Header :: "(string \<times> string) list"

record Response =
  StatusCode :: int
  Request :: Request
  Body :: string

text \<open>
  \<open>c.Client.Do(req)\<close> talks to the outside world: its answer may depend on every request
  made before. The client is a function of the requests already made and the current
  one, and returns a transport error (\<open>Inl\<close>) or a response.
\<close>

type_synonym Client = "Request list \<Rightarrow> Request \<Rightarrow> string + Response"

record Config =
  ApiKey :: string
  IntervalHrs :: string
  Target :: string
  Client :: Client

text \<open>
  Library functions the code calls, taken as parameters: \<open>http.NewRequest\<close>
  (method, URL), \<open>json.NewDecoder(body).Decode\<close> into \<open>Data\<close>, \<open>os.Getenv\<close>,
  \<open>os.ReadFile\<close>, \<open>json.Unmarshal\<close> into \<open>Config\<close>, \<open>strconv.ParseInt(s, 10, 64)\<close>,
  \<open>cron.New\<close> and \<open>scheduler.Add\<close> (the cron expression; \<open>Some\<close> is an error).
  \<open>Inl\<close> carries the library's error message.
\<close>

record Env =
  http_NewRequest :: "string \<Rightarrow> string \<Rightarrow> string + Request"
  json_Decode :: "string \<Rightarrow> string + Data"
  os_Getenv :: "string \<Rightarrow> string"
  os_ReadFile :: "string \<Rightarrow> string + string"
  json_Unmarshal :: "string \<Rightarrow> string + Config"
  strconv_ParseInt :: "string \<Rightarrow> string + int64"
  cron_New :: "string option"
  cron_Add :: "string \<Rightarrow> string option"

subsection \<open>Errors and log lines\<close>

text \<open>
  One constructor for each error the code builds, with the arguments of its format
  string. Both \<open>sendToScanner\<close> and \<open>triageDependencies\<close> build the same
  "unexpected status code" error.
\<close>

datatype error =
    CreatingRequest string string
      \<comment> \<open>"creating request for dependency %s: %w"\<close>
  | SendingToScanner string string
      \<comment> \<open>"sending to scanner: %s: %w"\<close>
  | UnexpectedStatus int URL
      \<comment> \<open>"unexpected status code %d from %s"\<close>
  | ApiKeyIncorrect
      \<comment> \<open>"api key is incorrect. bot was redirected to /login"\<close>
  | DoingRequest URL string
      \<comment> \<open>"doing request for %s: %w"\<close>
  | DecodingResponse URL string
      \<comment> \<open>"decoding response from %s: %w"\<close>
  | WantedDependency string string
      \<comment> \<open>"wanted dependency for %s, got %s"\<close>
  | ZeroDependencies string
      \<comment> \<open>"returned 0 dependencies for %s"\<close>
  | ReadingConfig string
      \<comment> \<open>"reading config: %w"\<close>
  | UnmarshallingConfig string
      \<comment> \<open>"unmarshalling config: %w"\<close>
  | ApikeyNotSet
  | IntervalNotSet
  | TargetNotSet
  | LibraryError string
      \<comment> \<open>an error of \<open>strconv.ParseInt\<close>, \<open>cron.New\<close> or \<open>scheduler.Add\<close>, passed on as it is\<close>

datatype log_line =
    GettingDependencies string
      \<comment> \<open>"getting dependencies for %s"\<close>
  | SentToScanner string
      \<comment> \<open>"sent to scanner: %s"\<close>
  | Initialised string
      \<comment> \<open>"initialised with dependency target `%s`"\<close>
  | NowCutoff int64 int64
      \<comment> \<open>"now: %d cutoff: %s"\<close>
  | Fatal error
      \<comment> \<open>\<open>log.Fatal(err)\<close>: the line is printed and the process exits with status 1\<close>

text \<open>
  The effects of the program: the requests handed to \<open>Client.Do\<close>, oldest first, and
  the lines logged, oldest first. \<open>dispatched\<close> is a trace the code does not keep:
  the package names \<open>sendToScanner\<close> has been called with, oldest first. Nothing
  reads it, so it changes no result; it is there to state which dispatches were
  attempted.
\<close>

record World =
  sent :: "Request list"
  logged :: "log_line list"
  dispatched :: "string list"

definition log_Printf :: "log_line \<Rightarrow> World \<Rightarrow> World" where
  "log_Printf l w = w\<lparr>logged := logged w @ [l]\<rparr>"

definition Header_Add :: "Request \<Rightarrow> string \<Rightarrow> string \<Rightarrow> Request" where
  "Header_Add req k v = req\<lparr>Header := Header req @ [(k, v)]\<rparr>"

text \<open>\<open>c.Client.Do(req)\<close>: the answer, and the request recorded.\<close>

definition Client_Do :: "Config \<Rightarrow> Request \<Rightarrow> World \<Rightarrow> (string + Response) \<times> World" where
  "Client_Do c req w = (Client c (sent w) req, w\<lparr>sent := sent w @ [req]\<rparr>)"

definition StatusOK :: int where
  "StatusOK = 200"

section \<open>sendToScanner\<close>

text \<open>The result is Go's \<open>error\<close>: \<open>None\<close> is \<open>nil\<close>.\<close>

definition sendToScanner :: "Env \<Rightarrow> Config \<Rightarrow> string \<Rightarrow> World \<Rightarrow> error option \<times> World" where
  "sendToScanner env c packageName w0 =
     (let w = w0\<lparr>dispatched := dispatched w0 @ [packageName]\<rparr>
      in case http_NewRequest env ''GET''
                (''https://dprk-research.kmsec.uk/api/scanner/analyse/package/'' @ packageName) of
           Inl err \<Rightarrow> (Some (CreatingRequest packageName err), w)
         | Inr req0 \<Rightarrow>
             (let req1 = Header_Add req0 ''accept'' ''application/json'';
                  req = Header_Add req1 ''authorization'' (ApiKey c)
              in case Client_Do c req w of
                   (Inl err, w1) \<Rightarrow> (Some (SendingToScanner packageName err), w1)
                 | (Inr res, w1) \<Rightarrow>
                     if StatusCode res \<noteq> StatusOK
                     then (Some (UnexpectedStatus (StatusCode res) (URL (Request res))), w1)
                     else if Path (URL (Request res)) = ''/login''
                     then (Some ApiKeyIncorrect, w1)
                     else (None, log_Printf (SentToScanner packageName) w1)))"

section \<open>triageDependencies\<close>

text \<open>
  The first half of \<open>triageDependencies\<close>, up to the check on \<open>len(d.Packages)\<close>: the
  request to the registry, and every early \<open>return\<close> of an error. \<open>Inr\<close> is the
  decoded \<open>d.Packages\<close> the loop then ranges over.
\<close>

definition fetch_dependents :: "Env \<Rightarrow> Config \<Rightarrow> World \<Rightarrow> (error + Package list) \<times> World" where
  "fetch_dependents env c w0 =
     (let w = log_Printf (GettingDependencies (Target c)) w0
      in case http_NewRequest env ''GET'' (''https://www.npmjs.com/browse/depended/'' @ Target c) of
           Inl err \<Rightarrow> (Inl (CreatingRequest (Target c) err), w)
         | Inr req0 \<Rightarrow>
             (let req1 = Header_Add req0 ''accept'' ''application/json'';
                  req2 = Header_Add req1 ''x-spiferack'' ''1'';
                  req = Header_Add req2 ''user-agent'' ''dprk-hunter (dependencies)''
              in case Client_Do c req w of
                   (Inl err, w1) \<Rightarrow> (Inl (DoingRequest (URL req) err), w1)
                 | (Inr res, w1) \<Rightarrow>
                     if StatusCode res \<noteq> StatusOK
                     then (Inl (UnexpectedStatus (StatusCode res) (URL (Request res))), w1)
                     else (case json_Decode env (Body res) of
                             Inl err \<Rightarrow> (Inl (DecodingResponse (URL (Request res)) err), w1)
                           | Inr d \<Rightarrow>
                               if Dependency d \<noteq> Target c
                               then (Inl (WantedDependency (Target c) (Dependency d)), w1)
                               else if length (Packages d) = 0
                               then (Inl (ZeroDependencies (Target c)), w1)
                               else (Inr (Packages d), w1))))"

text \<open>
  The loop over \<open>d.Packages\<close>: \<open>break\<close> at the first package older than the cutoff,
  \<open>continue\<close> past a scoped package, return the first error of \<open>sendToScanner\<close>;
  \<open>triaged\<close> counts the packages sent. Falling out of the loop returns \<open>nil\<close>.
\<close>

fun triage_loop ::
  "Env \<Rightarrow> Config \<Rightarrow> int64 \<Rightarrow> Package list \<Rightarrow> int \<Rightarrow> World \<Rightarrow> error option \<times> World" where
  "triage_loop env c cutoff [] triaged w = (None, w)"
| "triage_loop env c cutoff (p # ps) triaged w =
     (if TS (Date p) <s cutoff then (None, w)
      else if IsScoped p then triage_loop env c cutoff ps triaged w
      else case sendToScanner env c (Name p) w of
             (Some err, w1) \<Rightarrow> (Some err, w1)
           | (None, w1) \<Rightarrow> triage_loop env c cutoff ps (triaged + 1) w1)"

definition triageDependencies :: "Env \<Rightarrow> Config \<Rightarrow> int64 \<Rightarrow> World \<Rightarrow> error option \<times> World" where
  "triageDependencies env c cutoff w =
     (case fetch_dependents env c w of
        (Inl err, w1) \<Rightarrow> (Some err, w1)
      | (Inr packages, w1) \<Rightarrow> triage_loop env c cutoff packages 0 w1)"

section \<open>LoadConfig and main\<close>



text \<open>\<open>time.Hour.Milliseconds()\<close>\<close>

definition Hour_Milliseconds :: int64 where
  "Hour_Milliseconds = 3600000"

text \<open>
  The cutoff of a cycle, \<open>now - time.Hour.Milliseconds()*interval\<close> in \<open>int64\<close>
  arithmetic (the specification's \<open>computeCutoff\<close>).
\<close>

definition computeCutoff :: "int64 \<Rightarrow> int64 \<Rightarrow> int64" where
  "computeCutoff now interval = now - Hour_Milliseconds * interval"

text \<open>
  The task \<open>main\<close> hands to the scheduler ("hunt for dependencies"), run at every
  tick; \<open>now\<close> is \<open>time.Now().UnixMilli()\<close>. \<open>Some err\<close> is \<open>log.Fatal(err)\<close>: the
  cycle failed and the process exits; \<open>None\<close> is the task returning.
\<close>

definition hunt_for_dependencies ::
  "Env \<Rightarrow> Config \<Rightarrow> int64 \<Rightarrow> int64 \<Rightarrow> World \<Rightarrow> error option \<times> World" where
  "hunt_for_dependencies env config interval now w0 =
     (let cutoff = computeCutoff now interval;
          w = log_Printf (NowCutoff now cutoff) w0
      in case triageDependencies env config cutoff w of
           (Some err, w1) \<Rightarrow> (Some err, log_Printf (Fatal err) w1)
         | (None, w1) \<Rightarrow> (None, w1))"



section \<open>The selection of the specification\<close>

text \<open>
  \<open>selectForScan\<close> follows the words of the specification (4.3), not the code: one
  forward pass that stops at the first package whose timestamp is strictly less than
  the cutoff, skips a scoped package and includes every other one.
\<close>

fun selectForScan :: "Package list \<Rightarrow> int64 \<Rightarrow> Package list" where
  "selectForScan [] cutoff = []"
| "selectForScan (p # ps) cutoff =
     (if TS (Date p) <s cutoff then []
      else if IsScoped p then selectForScan ps cutoff
      else p # selectForScan ps cutoff)"

text \<open>
  The dispatch of the specification (4.5): the selected names are sent one at a time,
  in order, and the first failure ends the pass.
\<close>

fun dispatch_all :: "Env \<Rightarrow> Config \<Rightarrow> string list \<Rightarrow> World \<Rightarrow> error option \<times> World" where
  "dispatch_all env c [] w = (None, w)"
| "dispatch_all env c (n # ns) w =
     (case sendToScanner env c n w of
        (Some err, w1) \<Rightarrow> (Some err, w1)
      | (None, w1) \<Rightarrow> dispatch_all env c ns w1)"

section \<open>Concrete inputs\<close>

text \<open>
  Small concrete packages, clients and library functions, on which the theorems below
  are evaluated.
\<close>

definition pkg :: "string \<Rightarrow> int64 \<Rightarrow> Package" where
  "pkg n ts =
     \<lparr>Name = n, Description = [], Maintainers = [],
      Publisher = \<lparr>PublisherName = [], Avatars = []\<rparr>,
      Date = \<lparr>TS = ts, Rel = []\<rparr>, Version = []\<rparr>"

text \<open>A URL of the form \<open>https://host/path\<close>, split after the host.\<close>

definition url_of :: "string \<Rightarrow> URL" where
  "url_of u = \<lparr>String = u, Path = dropWhile (\<lambda>ch. ch \<noteq> CHR ''/'') (drop 8 u)\<rparr>"

text \<open>
  An \<open>http.NewRequest\<close> that refuses a URL with a percent sign (Go refuses an invalid
  escape such as \<open>%zz\<close>) and accepts every other one.
\<close>

definition NewRequest_strict :: "string \<Rightarrow> string \<Rightarrow> string + Request" where
  "NewRequest_strict m u =
     (if CHR ''%'' \<in> set u then Inl ''invalid URL escape''
      else Inr \<lparr>Method = m, URL = url_of u, Header = []\<rparr>)"

text \<open>A client whose every answer has the given status, with no redirect.\<close>

definition status_client :: "int \<Rightarrow> Client" where
  "status_client code hist req = Inr \<lparr>StatusCode = code, Request = req, Body = []\<rparr>"

text \<open>A client that was redirected to the login page, which answers with the given status.\<close>

definition login_client :: "int \<Rightarrow> Client" where
  "login_client code hist req =
     Inr \<lparr>StatusCode = code,
          Request = req\<lparr>URL := url_of ''https://dprk-research.kmsec.uk/login''\<rparr>,
          Body = []\<rparr>"

text \<open>A client that times out on the scanner request for one package name.\<close>

definition timeout_client :: "string \<Rightarrow> Client" where
  "timeout_client n hist req =
     (if String (URL req) = ''https://dprk-research.kmsec.uk/api/scanner/analyse/package/'' @ n
      then Inl ''timeout''
      else Inr \<lparr>StatusCode = 200, Request = req, Body = []\<rparr>)"

definition config_of :: "string \<Rightarrow> Client \<Rightarrow> Config" where
  "config_of target client =
     \<lparr>ApiKey = ''key'', IntervalHrs = ''-5'', Target = target, Client = client\<rparr>"

definition ParseInt_some :: "string \<Rightarrow> string + int64" where
  "ParseInt_some s =
     (if s = ''-5'' then Inr (- 5) else if s = ''6'' then Inr 6 else Inl ''invalid syntax'')"

text \<open>
  An environment whose registry answers with the given decoded data, and whose
  configuration file holds \<open>config_of ''lodash''\<close>.
\<close>

definition env_of :: "Data \<Rightarrow> Env" where
  "env_of d =
     \<lparr>http_NewRequest = NewRequest_strict,
      json_Decode = (\<lambda>body. Inr d),
      os_Getenv = (\<lambda>var. []),
      os_ReadFile = (\<lambda>path. if path = ''.config'' then Inr ''{}'' else Inl ''no such file''),
      json_Unmarshal = (\<lambda>b. Inr (config_of ''lodash'' (status_client 0))),
      strconv_ParseInt = ParseInt_some,
      cron_New = None,
      cron_Add = (\<lambda>expr. None)\<rparr>"



definition lodash_data :: "Package list \<Rightarrow> Data" where
  "lodash_data ps = \<lparr>Title = [], Dependency = ''lodash'', Packages = ps\<rparr>"

definition w_start :: World where
  "w_start = \<lparr>sent = [], logged = [], dispatched = []\<rparr>"

section \<open>Notions the claims are stated with\<close>


text \<open>
  The world after \<open>sendToScanner\<close> has been called with each of the names, one after
  another, whatever each call returned.
\<close>

fun world_after :: "Env \<Rightarrow> Config \<Rightarrow> string list \<Rightarrow> World \<Rightarrow> World" where
  "world_after env c [] w = w"
| "world_after env c (n # ns) w = world_after env c ns (snd (sendToScanner env c n w))"


text \<open>
  The request \<open>triageDependencies\<close> hands to the client, given what \<open>http.NewRequest\<close>
  returned: the three headers added, in the code's order.
\<close>

definition dependents_request :: "Request \<Rightarrow> Request" where
  "dependents_request req0 =
     Header_Add (Header_Add (Header_Add req0 ''accept'' ''application/json'') ''x-spiferack'' ''1'')
       ''user-agent'' ''dprk-hunter (dependencies)''"

text \<open>The request \<open>sendToScanner\<close> hands to the client, likewise.\<close>

definition scanner_request :: "Config \<Rightarrow> Request \<Rightarrow> Request" where
  "scanner_request c req0 =
     Header_Add (Header_Add req0 ''accept'' ''application/json'') ''authorization'' (ApiKey c)"

section \<open>Properties of the dispatcher and of the loop\<close>

lemma sendToScanner_dispatched:
  "dispatched (snd (sendToScanner env c n w)) = dispatched w @ [n]"
  by (simp add: sendToScanner_def Client_Do_def log_Printf_def Let_def
           split: sum.splits)

lemma triage_loop_counter:
  "triage_loop env c cutoff ps t w = triage_loop env c cutoff ps t' w"
  by (induction ps arbitrary: t t' w) (auto split: prod.splits option.splits)

lemma triage_loop_dispatch_all:
  "triage_loop env c cutoff ps t w = dispatch_all env c (map Name (selectForScan ps cutoff)) w"
  by (induction ps arbitrary: t w) (auto split: prod.splits option.splits)

lemma selectForScan_filter:
  "selectForScan ps cutoff =
     filter (\<lambda>p. \<not> IsScoped p) (takeWhile (\<lambda>p. \<not> TS (Date p) <s cutoff) ps)"
  by (induction ps) auto

lemma dispatch_all_None_dispatched:
  "fst (dispatch_all env c ns w) = None \<Longrightarrow>
   dispatched (snd (dispatch_all env c ns w)) = dispatched w @ ns"
proof (induction ns arbitrary: w)
  case Nil
  then show ?case by simp
next
  case (Cons n ns)
  obtain r w1 where s: "sendToScanner env c n w = (r, w1)"
    by (cases "sendToScanner env c n w")
  with Cons.prems have r: "r = None" by (cases r) auto
  have d: "dispatched w1 = dispatched w @ [n]"
    using sendToScanner_dispatched [of env c n w] s by simp
  from Cons.prems s r have "fst (dispatch_all env c ns w1) = None" by simp
  from Cons.IH [OF this] s r d show ?case by simp
qed

lemmas fixture_defs =
  pkg_def url_of_def NewRequest_strict_def status_client_def login_client_def
  timeout_client_def config_of_def ParseInt_some_def env_of_def lodash_data_def w_start_def

lemmas code_defs =
  sendToScanner_def Client_Do_def log_Printf_def Header_Add_def StatusOK_def
  IsScoped_def strings_HasPrefix_def Let_def

section \<open>C1: the walk selects what the specification's pass selects\<close>

text \<open>
  C1. The loop of \<open>triageDependencies\<close> dispatches exactly the names of
  \<open>selectForScan\<close>, one after another: the records scanned in input order up to, and
  not including, the first one whose timestamp is strictly less than the cutoff, without
  the scoped ones, in input order. When every dispatch succeeds, the names the scanner
  was called with are exactly the names of that selection. On the packages
  \<open>@scope/a\<close> (100), \<open>b\<close> (90), \<open>c\<close> (50) with cutoff 60 the selection is \<open>b\<close> alone.
\<close>

theorem triage_walk_selection:
  "triage_loop env c cutoff ps t w = dispatch_all env c (map Name (selectForScan ps cutoff)) w
   \<and> selectForScan ps cutoff =
       filter (\<lambda>p. \<not> IsScoped p) (takeWhile (\<lambda>p. \<not> TS (Date p) <s cutoff) ps)
   \<and> (fst (triage_loop env c cutoff ps t w) = None \<longrightarrow>
        dispatched (snd (triage_loop env c cutoff ps t w))
          = dispatched w @ map Name (selectForScan ps cutoff))
   \<and> selectForScan [pkg ''@scope/a'' 100, pkg ''b'' 90, pkg ''c'' 50] 60 = [pkg ''b'' 90]"
proof (intro conjI impI)
  show "triage_loop env c cutoff ps t w
          = dispatch_all env c (map Name (selectForScan ps cutoff)) w"
    by (rule triage_loop_dispatch_all)
  show "selectForScan ps cutoff =
          filter (\<lambda>p. \<not> IsScoped p) (takeWhile (\<lambda>p. \<not> TS (Date p) <s cutoff) ps)"
    by (rule selectForScan_filter)
  show "selectForScan [pkg ''@scope/a'' 100, pkg ''b'' 90, pkg ''c'' 50] 60 = [pkg ''b'' 90]"
    by (simp add: pkg_def IsScoped_def strings_HasPrefix_def)
next
  assume "fst (triage_loop env c cutoff ps t w) = None"
  then show "dispatched (snd (triage_loop env c cutoff ps t w))
               = dispatched w @ map Name (selectForScan ps cutoff)"
    by (simp add: triage_loop_dispatch_all dispatch_all_None_dispatched)
qed

theorem triage_walk_selection_witness:
  "fst (triage_loop (env_of (lodash_data [])) (config_of ''lodash'' (status_client 200)) 60
          [pkg ''@scope/a'' 100, pkg ''b'' 90, pkg ''c'' 50] 0 w_start) = None
   \<and> dispatched (snd (triage_loop (env_of (lodash_data []))
          (config_of ''lodash'' (status_client 200)) 60
          [pkg ''@scope/a'' 100, pkg ''b'' 90, pkg ''c'' 50] 0 w_start)) = [''b'']"
proof -
  let ?env = "env_of (lodash_data [])"
  let ?c = "config_of ''lodash'' (status_client 200)"
  let ?ps = "[pkg ''@scope/a'' 100, pkg ''b'' 90, pkg ''c'' 50]"
  have n: "fst (triage_loop ?env ?c 60 ?ps 0 w_start) = None"
    by (simp add: fixture_defs code_defs)
  have "fst (triage_loop ?env ?c 60 ?ps 0 w_start) = None \<longrightarrow>
        dispatched (snd (triage_loop ?env ?c 60 ?ps 0 w_start))
          = dispatched w_start @ map Name (selectForScan ?ps 60)"
    and sel: "selectForScan ?ps 60 = [pkg ''b'' 90]"
    using triage_walk_selection [of ?env ?c 60 ?ps 0 w_start] by blast+
  with n have "dispatched (snd (triage_loop ?env ?c 60 ?ps 0 w_start))
                 = dispatched w_start @ map Name [pkg ''b'' 90]"
    by simp
  then have "dispatched (snd (triage_loop ?env ?c 60 ?ps 0 w_start)) = [''b'']"
    by (simp add: w_start_def pkg_def)
  with n show ?thesis by simp
qed

section \<open>C3: dispatch in order, fail fast\<close>

lemma world_after_append:
  "world_after env c (xs @ ys) w = world_after env c ys (world_after env c xs w)"
  by (induction xs arbitrary: w) simp_all









section \<open>C4: nothing after a record older than the cutoff\<close>

lemma selectForScan_take:
  "k < length ps \<Longrightarrow> TS (Date (ps ! k)) <s cutoff \<Longrightarrow>
   selectForScan ps cutoff = selectForScan (take k ps) cutoff"
proof (induction ps arbitrary: k)
  case Nil
  then show ?case by simp
next
  case (Cons p ps)
  show ?case
  proof (cases k)
    case 0
    with Cons.prems show ?thesis by simp
  next
    case (Suc j)
    with Cons.prems have "j < length ps" "TS (Date (ps ! j)) <s cutoff" by simp_all
    from Cons.IH [OF this] Suc show ?thesis by simp
  qed
qed

lemma subseq_selectForScan:
  "subseq (selectForScan ps cutoff) ps"
  by (induction ps) auto

text \<open>
  C4. When the record at position \<open>k\<close> has a timestamp strictly below the cutoff, the
  loop does what it does on the first \<open>k\<close> records alone, and so does the selection:
  the selection is a subsequence of the records before position \<open>k\<close>, whatever the
  timestamps of the records after it.
\<close>

theorem nothing_selected_after_old_record:
  "k < length ps \<Longrightarrow> TS (Date (ps ! k)) <s cutoff \<Longrightarrow>
   triage_loop env c cutoff ps t w = triage_loop env c cutoff (take k ps) t w
   \<and> selectForScan ps cutoff = selectForScan (take k ps) cutoff
   \<and> subseq (selectForScan ps cutoff) (take k ps)"
proof -
  assume k: "k < length ps" and old: "TS (Date (ps ! k)) <s cutoff"
  have sel: "selectForScan ps cutoff = selectForScan (take k ps) cutoff"
    using k old by (rule selectForScan_take)
  have "subseq (selectForScan (take k ps) cutoff) (take k ps)"
    by (rule subseq_selectForScan)
  with sel show ?thesis
    by (simp add: triage_loop_dispatch_all)
qed

theorem nothing_selected_after_old_record_witness:
  "TS (Date ([pkg ''b'' 90, pkg ''c'' 50, pkg ''d'' 95] ! 1)) <s 60
   \<and> \<not> TS (Date ([pkg ''b'' 90, pkg ''c'' 50, pkg ''d'' 95] ! 2)) <s 60
   \<and> triage_loop (env_of (lodash_data [])) (config_of ''lodash'' (status_client 200)) 60
        [pkg ''b'' 90, pkg ''c'' 50, pkg ''d'' 95] 0 w_start
      = triage_loop (env_of (lodash_data [])) (config_of ''lodash'' (status_client 200)) 60
        [pkg ''b'' 90] 0 w_start
   \<and> selectForScan [pkg ''b'' 90, pkg ''c'' 50, pkg ''d'' 95] 60 = [pkg ''b'' 90]"
proof -
  let ?env = "env_of (lodash_data [])"
  let ?c = "config_of ''lodash'' (status_client 200)"
  let ?ps = "[pkg ''b'' 90, pkg ''c'' 50, pkg ''d'' 95]"
  have k: "Suc 0 < length ?ps" by simp
  have old: "TS (Date (?ps ! Suc 0)) <s 60" by (simp add: pkg_def)
  have later: "\<not> TS (Date (?ps ! 2)) <s 60" by (simp add: pkg_def)
  have "triage_loop ?env ?c 60 ?ps 0 w_start = triage_loop ?env ?c 60 (take (Suc 0) ?ps) 0 w_start
        \<and> selectForScan ?ps 60 = selectForScan (take (Suc 0) ?ps) 60
        \<and> subseq (selectForScan ?ps 60) (take (Suc 0) ?ps)"
    using nothing_selected_after_old_record [OF k old] .
  then have "triage_loop ?env ?c 60 ?ps 0 w_start = triage_loop ?env ?c 60 [pkg ''b'' 90] 0 w_start"
    and "selectForScan ?ps 60 = [pkg ''b'' 90]"
    by (simp_all add: pkg_def IsScoped_def strings_HasPrefix_def del: triage_loop.simps)
  with old later show ?thesis by simp
qed

section \<open>C9: the cutoff is compared before the scope is looked at\<close>

lemma dispatch_all_dispatched_prefix:
  "\<exists>k. dispatched (snd (dispatch_all env c ns w)) = dispatched w @ take k ns"
proof (induction ns arbitrary: w)
  case Nil
  then show ?case by simp
next
  case (Cons n ns)
  obtain r w1 where s: "sendToScanner env c n w = (r, w1)"
    by (cases "sendToScanner env c n w")
  have d: "dispatched w1 = dispatched w @ [n]"
    using sendToScanner_dispatched [of env c n w] s by simp
  show ?case
  proof (cases r)
    case None
    from Cons.IH [of w1] obtain k
      where "dispatched (snd (dispatch_all env c ns w1)) = dispatched w1 @ take k ns" ..
    with s None d have
      "dispatched (snd (dispatch_all env c (n # ns) w)) = dispatched w @ take (Suc k) (n # ns)"
      by simp
    then show ?thesis ..
  next
    case (Some e)
    with s d have
      "dispatched (snd (dispatch_all env c (n # ns) w)) = dispatched w @ take (Suc 0) (n # ns)"
      by simp
    then show ?thesis ..
  qed
qed

lemma selectForScan_members:
  "q \<in> set (selectForScan qs cutoff) \<Longrightarrow> \<not> IsScoped q \<and> \<not> TS (Date q) <s cutoff"
  by (auto simp: selectForScan_filter dest: set_takeWhileD)

text \<open>
  C9. A record whose timestamp is strictly below the cutoff ends the loop at once,
  scoped or not; a scoped record is skipped only when its timestamp is not below the
  cutoff. Every selected record is unscoped and not older than the cutoff, and the
  names the loop calls the scanner with are selected names: none begins with \<open>@\<close>.
\<close>

theorem cutoff_checked_before_scope:
  "(TS (Date p) <s cutoff \<longrightarrow> triage_loop env c cutoff (p # ps) t w = (None, w))
   \<and> (\<not> TS (Date p) <s cutoff \<longrightarrow> IsScoped p \<longrightarrow>
        triage_loop env c cutoff (p # ps) t w = triage_loop env c cutoff ps t w)
   \<and> (\<forall>q \<in> set (selectForScan qs cutoff). \<not> IsScoped q \<and> \<not> TS (Date q) <s cutoff)
   \<and> (\<exists>ns. dispatched (snd (triage_loop env c cutoff qs t w)) = dispatched w @ ns
          \<and> (\<forall>n \<in> set ns. \<not> strings_HasPrefix n ''@''))"
proof -
  have a: "TS (Date p) <s cutoff \<longrightarrow> triage_loop env c cutoff (p # ps) t w = (None, w)"
    by simp
  have b: "\<not> TS (Date p) <s cutoff \<longrightarrow> IsScoped p \<longrightarrow>
             triage_loop env c cutoff (p # ps) t w = triage_loop env c cutoff ps t w"
    by simp
  have c: "\<forall>q \<in> set (selectForScan qs cutoff). \<not> IsScoped q \<and> \<not> TS (Date q) <s cutoff"
    using selectForScan_members by blast
  obtain k where k: "dispatched (snd (triage_loop env c cutoff qs t w))
      = dispatched w @ take k (map Name (selectForScan qs cutoff))"
    using dispatch_all_dispatched_prefix [of env c "map Name (selectForScan qs cutoff)" w]
    by (auto simp: triage_loop_dispatch_all)
  have "\<forall>n \<in> set (take k (map Name (selectForScan qs cutoff))). \<not> strings_HasPrefix n ''@''"
  proof
    fix n assume "n \<in> set (take k (map Name (selectForScan qs cutoff)))"
    then have "n \<in> set (map Name (selectForScan qs cutoff))" by (rule in_set_takeD)
    then obtain q where "q \<in> set (selectForScan qs cutoff)" "n = Name q" by auto
    with c show "\<not> strings_HasPrefix n ''@''" by (auto simp: IsScoped_def)
  qed
  with k have d: "\<exists>ns. dispatched (snd (triage_loop env c cutoff qs t w)) = dispatched w @ ns
      \<and> (\<forall>n \<in> set ns. \<not> strings_HasPrefix n ''@'')"
    by blast
  from a b c d show ?thesis by blast
qed

theorem cutoff_checked_before_scope_witness:
  "IsScoped (pkg ''@old/a'' 50) \<and> TS (Date (pkg ''@old/a'' 50)) <s 60
   \<and> triage_loop (env_of (lodash_data [])) (config_of ''lodash'' (status_client 200)) 60
        [pkg ''@old/a'' 50, pkg ''b'' 90] 0 w_start = (None, w_start)
   \<and> IsScoped (pkg ''@new/a'' 70) \<and> \<not> TS (Date (pkg ''@new/a'' 70)) <s 60
   \<and> triage_loop (env_of (lodash_data [])) (config_of ''lodash'' (status_client 200)) 60
        [pkg ''@new/a'' 70, pkg ''c'' 50] 0 w_start
      = triage_loop (env_of (lodash_data [])) (config_of ''lodash'' (status_client 200)) 60
        [pkg ''c'' 50] 0 w_start"
proof -
  let ?env = "env_of (lodash_data [])"
  let ?c = "config_of ''lodash'' (status_client 200)"
  have s1: "IsScoped (pkg ''@old/a'' 50)" and s2: "IsScoped (pkg ''@new/a'' 70)"
    by (simp_all add: pkg_def IsScoped_def strings_HasPrefix_def)
  have o1: "TS (Date (pkg ''@old/a'' 50)) <s 60" and o2: "\<not> TS (Date (pkg ''@new/a'' 70)) <s 60"
    by (simp_all add: pkg_def)
  have "TS (Date (pkg ''@old/a'' 50)) <s 60 \<longrightarrow>
        triage_loop ?env ?c 60 [pkg ''@old/a'' 50, pkg ''b'' 90] 0 w_start = (None, w_start)"
    using cutoff_checked_before_scope
      [of "pkg ''@old/a'' 50" 60 ?env ?c "[pkg ''b'' 90]" 0 w_start "[]"]
    by blast
  with o1 have r1:
    "triage_loop ?env ?c 60 [pkg ''@old/a'' 50, pkg ''b'' 90] 0 w_start = (None, w_start)"
    by blast
  have "\<not> TS (Date (pkg ''@new/a'' 70)) <s 60 \<longrightarrow> IsScoped (pkg ''@new/a'' 70) \<longrightarrow>
        triage_loop ?env ?c 60 [pkg ''@new/a'' 70, pkg ''c'' 50] 0 w_start
          = triage_loop ?env ?c 60 [pkg ''c'' 50] 0 w_start"
    using cutoff_checked_before_scope
      [of "pkg ''@new/a'' 70" 60 ?env ?c "[pkg ''c'' 50]" 0 w_start "[]"]
    by blast
  with o2 s2 have r2:
    "triage_loop ?env ?c 60 [pkg ''@new/a'' 70, pkg ''c'' 50] 0 w_start
       = triage_loop ?env ?c 60 [pkg ''c'' 50] 0 w_start"
    by blast
  from s1 o1 r1 s2 o2 r2 show ?thesis by blast
qed

section \<open>The fetch: C6, C7, C8\<close>

lemma fetch_dependents_dispatched:
  "dispatched (snd (fetch_dependents env c w)) = dispatched w"
  by (simp add: fetch_dependents_def Client_Do_def log_Printf_def Let_def
           split: sum.splits)

lemma fetch_dependents_sent:
  "sent (snd (fetch_dependents env c w)) = sent w
   \<or> (\<exists>r. sent (snd (fetch_dependents env c w)) = sent w @ [r])"
  by (simp add: fetch_dependents_def Client_Do_def log_Printf_def Let_def
           split: sum.splits)

lemma triageDependencies_fetch_error:
  "fst (fetch_dependents env c w) = Inl e \<Longrightarrow>
   triageDependencies env c cutoff w = (Some e, snd (fetch_dependents env c w))"
  by (cases "fetch_dependents env c w") (simp add: triageDependencies_def)

text \<open>
  C6. Whenever the registry's answer has been decoded: a \<open>dependency\<close> field other than
  the target makes \<open>triageDependencies\<close> return the "wanted dependency" error, also
  when the package list is not empty; with the right \<open>dependency\<close> field an empty
  package list makes it return the "returned 0 dependencies" error. In both cases
  \<open>sendToScanner\<close> is not called.
\<close>

theorem mismatch_and_empty_rejected:
  "http_NewRequest env ''GET'' (''https://www.npmjs.com/browse/depended/'' @ Target c) = Inr req0 \<Longrightarrow>
   Client c (sent w)
     (Header_Add (Header_Add (Header_Add req0 ''accept'' ''application/json'') ''x-spiferack'' ''1'')
        ''user-agent'' ''dprk-hunter (dependencies)'') = Inr res \<Longrightarrow>
   StatusCode res = StatusOK \<Longrightarrow>
   json_Decode env (Body res) = Inr d \<Longrightarrow>
   (Dependency d \<noteq> Target c \<longrightarrow>
      fst (triageDependencies env c cutoff w) = Some (WantedDependency (Target c) (Dependency d))
      \<and> dispatched (snd (triageDependencies env c cutoff w)) = dispatched w)
   \<and> (Dependency d = Target c \<longrightarrow> Packages d = [] \<longrightarrow>
      fst (triageDependencies env c cutoff w) = Some (ZeroDependencies (Target c))
      \<and> dispatched (snd (triageDependencies env c cutoff w)) = dispatched w)"
  by (simp add: triageDependencies_def fetch_dependents_def Client_Do_def log_Printf_def Let_def)

theorem mismatch_and_empty_rejected_witness:
  "fst (triageDependencies (env_of \<lparr>Title = [], Dependency = ''express'', Packages = [pkg ''b'' 90]\<rparr>)
          (config_of ''lodash'' (status_client 200)) 60 w_start)
     = Some (WantedDependency ''lodash'' ''express'')
   \<and> dispatched (snd (triageDependencies
          (env_of \<lparr>Title = [], Dependency = ''express'', Packages = [pkg ''b'' 90]\<rparr>)
          (config_of ''lodash'' (status_client 200)) 60 w_start)) = []
   \<and> fst (triageDependencies (env_of (lodash_data []))
          (config_of ''lodash'' (status_client 200)) 60 w_start)
     = Some (ZeroDependencies ''lodash'')
   \<and> dispatched (snd (triageDependencies (env_of (lodash_data []))
          (config_of ''lodash'' (status_client 200)) 60 w_start)) = []"
proof -
  let ?c = "config_of ''lodash'' (status_client 200)"
  let ?da = "\<lparr>Title = [], Dependency = ''express'', Packages = [pkg ''b'' 90]\<rparr>"
  let ?db = "lodash_data []"
  let ?base = "\<lparr>Method = ''GET'', URL = url_of ''https://www.npmjs.com/browse/depended/lodash'',
                Header = []\<rparr>"
  let ?req = "Header_Add (Header_Add (Header_Add ?base ''accept'' ''application/json'')
                ''x-spiferack'' ''1'') ''user-agent'' ''dprk-hunter (dependencies)''"
  let ?res = "\<lparr>StatusCode = 200, Request = ?req, Body = []\<rparr>"
  have n1: "http_NewRequest (env_of ?da) ''GET''
              (''https://www.npmjs.com/browse/depended/'' @ Target ?c) = Inr ?base"
    and n2: "http_NewRequest (env_of ?db) ''GET''
              (''https://www.npmjs.com/browse/depended/'' @ Target ?c) = Inr ?base"
    by (simp_all add: env_of_def config_of_def NewRequest_strict_def)
  have do: "Client ?c (sent w_start) ?req = Inr ?res"
    by (simp add: config_of_def status_client_def)
  have ok: "StatusCode ?res = StatusOK" by (simp add: StatusOK_def)
  have d1: "json_Decode (env_of ?da) (Body ?res) = Inr ?da"
    and d2: "json_Decode (env_of ?db) (Body ?res) = Inr ?db"
    by (simp_all add: env_of_def)
  have m: "Dependency ?da \<noteq> Target ?c" by (simp add: config_of_def)
  have e: "Dependency ?db = Target ?c" "Packages ?db = []"
    by (simp_all add: config_of_def lodash_data_def)
  from mismatch_and_empty_rejected [OF n1 do ok d1, of 60] m
  have r1: "fst (triageDependencies (env_of ?da) ?c 60 w_start)
              = Some (WantedDependency (Target ?c) (Dependency ?da))
            \<and> dispatched (snd (triageDependencies (env_of ?da) ?c 60 w_start)) = dispatched w_start"
    by blast
  from mismatch_and_empty_rejected [OF n2 do ok d2, of 60] e
  have r2: "fst (triageDependencies (env_of ?db) ?c 60 w_start) = Some (ZeroDependencies (Target ?c))
            \<and> dispatched (snd (triageDependencies (env_of ?db) ?c 60 w_start)) = dispatched w_start"
    by blast
  have t: "Target ?c = ''lodash''" "Dependency ?da = ''express''" "dispatched w_start = []"
    by (simp_all add: config_of_def w_start_def)
  from r1 r2 show ?thesis unfolding t by blast
qed

text \<open>
  C8. When the fetch of a cycle fails, with whatever error, the cycle ends in
  \<open>log.Fatal\<close> of that very error: the error is the cycle's result and the last line
  logged. \<open>sendToScanner\<close> is never called, and at most the one request of the fetch
  has been made.
\<close>

theorem failed_fetch_ends_cycle:
  "fst (fetch_dependents env c (log_Printf (NowCutoff now (computeCutoff now h)) w)) = Inl e \<Longrightarrow>
   fst (hunt_for_dependencies env c h now w) = Some e
   \<and> last (logged (snd (hunt_for_dependencies env c h now w))) = Fatal e
   \<and> dispatched (snd (hunt_for_dependencies env c h now w)) = dispatched w
   \<and> (sent (snd (hunt_for_dependencies env c h now w)) = sent w
        \<or> (\<exists>r. sent (snd (hunt_for_dependencies env c h now w)) = sent w @ [r]))"
proof -
  let ?w = "log_Printf (NowCutoff now (computeCutoff now h)) w"
  assume f: "fst (fetch_dependents env c ?w) = Inl e"
  then have t: "triageDependencies env c (computeCutoff now h) ?w
                  = (Some e, snd (fetch_dependents env c ?w))"
    by (rule triageDependencies_fetch_error)
  then have hunt: "hunt_for_dependencies env c h now w
                     = (Some e, log_Printf (Fatal e) (snd (fetch_dependents env c ?w)))"
    by (simp add: hunt_for_dependencies_def Let_def)
  have d: "dispatched (snd (fetch_dependents env c ?w)) = dispatched w"
    by (simp add: fetch_dependents_dispatched) (simp add: log_Printf_def)
  have s: "sent (snd (fetch_dependents env c ?w)) = sent w
           \<or> (\<exists>r. sent (snd (fetch_dependents env c ?w)) = sent w @ [r])"
    using fetch_dependents_sent [of env c ?w] by (simp add: log_Printf_def)
  from hunt d s show ?thesis
    by (simp add: log_Printf_def)
qed

theorem failed_fetch_ends_cycle_witness:
  "hunt_for_dependencies (env_of (lodash_data [pkg ''b'' 90]))
      (config_of ''lodash'' (status_client 500)) 6 1000 w_start
     = (Some (UnexpectedStatus 500 (url_of ''https://www.npmjs.com/browse/depended/lodash'')),
        snd (hunt_for_dependencies (env_of (lodash_data [pkg ''b'' 90]))
               (config_of ''lodash'' (status_client 500)) 6 1000 w_start))
   \<and> dispatched (snd (hunt_for_dependencies (env_of (lodash_data [pkg ''b'' 90]))
        (config_of ''lodash'' (status_client 500)) 6 1000 w_start)) = []"
proof -
  let ?env = "env_of (lodash_data [pkg ''b'' 90])"
  let ?c = "config_of ''lodash'' (status_client 500)"
  let ?e = "UnexpectedStatus 500 (url_of ''https://www.npmjs.com/browse/depended/lodash'')"
  have "fst (fetch_dependents ?env ?c (log_Printf (NowCutoff 1000 (computeCutoff 1000 6)) w_start))
          = Inl ?e"
    by (simp add: fetch_dependents_def fixture_defs code_defs)
  from failed_fetch_ends_cycle [OF this]
  have "fst (hunt_for_dependencies ?env ?c 6 1000 w_start) = Some ?e"
    and "dispatched (snd (hunt_for_dependencies ?env ?c 6 1000 w_start)) = dispatched w_start"
    by blast+
  then show ?thesis
    by (simp add: w_start_def prod_eq_iff)
qed

text \<open>
  C7, as the code has it. The fetch succeeds exactly when the request could be created,
  the client returned a response, its status is OK, its body was decoded, the decoded
  \<open>dependency\<close> is the target and the decoded package list is not empty; it then
  returns the decoded list as it is. It fails in six cases, each with its own error:
  the request cannot be created, the transport fails, the status is not OK, the body
  does not decode, the \<open>dependency\<close> is not the target, the package list is empty.
\<close>

theorem fetch_dependents_outcomes:
  "((fst (fetch_dependents env c w) = Inr ps) =
      (\<exists>req0 res d.
         http_NewRequest env ''GET'' (''https://www.npmjs.com/browse/depended/'' @ Target c) = Inr req0
         \<and> Client c (sent w) (dependents_request req0) = Inr res
         \<and> StatusCode res = StatusOK
         \<and> json_Decode env (Body res) = Inr d
         \<and> Dependency d = Target c \<and> Packages d \<noteq> [] \<and> ps = Packages d))
   \<and> ((fst (fetch_dependents env c w) = Inl e) =
      ((\<exists>err.
          http_NewRequest env ''GET'' (''https://www.npmjs.com/browse/depended/'' @ Target c) = Inl err
          \<and> e = CreatingRequest (Target c) err)
       \<or> (\<exists>req0 err.
          http_NewRequest env ''GET'' (''https://www.npmjs.com/browse/depended/'' @ Target c) = Inr req0
          \<and> Client c (sent w) (dependents_request req0) = Inl err
          \<and> e = DoingRequest (URL (dependents_request req0)) err)
       \<or> (\<exists>req0 res.
          http_NewRequest env ''GET'' (''https://www.npmjs.com/browse/depended/'' @ Target c) = Inr req0
          \<and> Client c (sent w) (dependents_request req0) = Inr res
          \<and> StatusCode res \<noteq> StatusOK
          \<and> e = UnexpectedStatus (StatusCode res) (URL (Request res)))
       \<or> (\<exists>req0 res err.
          http_NewRequest env ''GET'' (''https://www.npmjs.com/browse/depended/'' @ Target c) = Inr req0
          \<and> Client c (sent w) (dependents_request req0) = Inr res
          \<and> StatusCode res = StatusOK
          \<and> json_Decode env (Body res) = Inl err
          \<and> e = DecodingResponse (URL (Request res)) err)
       \<or> (\<exists>req0 res d.
          http_NewRequest env ''GET'' (''https://www.npmjs.com/browse/depended/'' @ Target c) = Inr req0
          \<and> Client c (sent w) (dependents_request req0) = Inr res
          \<and> StatusCode res = StatusOK
          \<and> json_Decode env (Body res) = Inr d
          \<and> Dependency d \<noteq> Target c
          \<and> e = WantedDependency (Target c) (Dependency d))
       \<or> (\<exists>req0 res d.
          http_NewRequest env ''GET'' (''https://www.npmjs.com/browse/depended/'' @ Target c) = Inr req0
          \<and> Client c (sent w) (dependents_request req0) = Inr res
          \<and> StatusCode res = StatusOK
          \<and> json_Decode env (Body res) = Inr d
          \<and> Dependency d = Target c \<and> Packages d = []
          \<and> e = ZeroDependencies (Target c))))"
proof (cases "http_NewRequest env ''GET'' (''https://www.npmjs.com/browse/depended/'' @ Target c)")
  case (Inl err)
  then show ?thesis
    by (auto simp: fetch_dependents_def Let_def)
next
  case nr: (Inr req0)
  show ?thesis
  proof (cases "Client c (sent w) (dependents_request req0)")
    case (Inl err)
    with nr show ?thesis
      by (auto simp: fetch_dependents_def dependents_request_def Client_Do_def log_Printf_def Let_def)
  next
    case do: (Inr res)
    show ?thesis
    proof (cases "StatusCode res = StatusOK")
      case False
      with nr do show ?thesis
        by (auto simp: fetch_dependents_def dependents_request_def Client_Do_def log_Printf_def
            Let_def)
    next
      case ok: True
      show ?thesis
      proof (cases "json_Decode env (Body res)")
        case (Inl err)
        with nr do ok show ?thesis
          by (auto simp: fetch_dependents_def dependents_request_def Client_Do_def log_Printf_def
              Let_def)
      next
        case (Inr d)
        with nr do ok show ?thesis
          by (auto simp: fetch_dependents_def dependents_request_def Client_Do_def log_Printf_def
              Let_def)
      qed
    qed
  qed
qed

text \<open>
  The claim's five cases leave one out: with the target \<open>a%zz\<close> the request cannot be
  created, the fetch fails, and the client has not been called at all.
\<close>

theorem fetch_fails_without_request_counterexample:
  "fst (fetch_dependents (env_of (lodash_data [pkg ''b'' 90]))
          (config_of ''a%zz'' (status_client 200)) w_start)
     = Inl (CreatingRequest ''a%zz'' ''invalid URL escape'')
   \<and> sent (snd (fetch_dependents (env_of (lodash_data [pkg ''b'' 90]))
          (config_of ''a%zz'' (status_client 200)) w_start)) = []"
  by (simp add: fetch_dependents_def fixture_defs code_defs)

theorem fetch_dependents_outcomes_witness:
  "fst (fetch_dependents (env_of (lodash_data [pkg ''b'' 90, pkg ''a'' 95]))
          (config_of ''lodash'' (status_client 200)) w_start)
     = Inr [pkg ''b'' 90, pkg ''a'' 95]"
proof -
  let ?d = "lodash_data [pkg ''b'' 90, pkg ''a'' 95]"
  let ?c = "config_of ''lodash'' (status_client 200)"
  let ?base = "\<lparr>Method = ''GET'', URL = url_of ''https://www.npmjs.com/browse/depended/lodash'',
                Header = []\<rparr>"
  let ?res = "\<lparr>StatusCode = 200, Request = dependents_request ?base, Body = []\<rparr>"
  have "http_NewRequest (env_of ?d) ''GET''
          (''https://www.npmjs.com/browse/depended/'' @ Target ?c) = Inr ?base
        \<and> Client ?c (sent w_start) (dependents_request ?base) = Inr ?res
        \<and> StatusCode ?res = StatusOK
        \<and> json_Decode (env_of ?d) (Body ?res) = Inr ?d
        \<and> Dependency ?d = Target ?c \<and> Packages ?d \<noteq> []
        \<and> [pkg ''b'' 90, pkg ''a'' 95] = Packages ?d"
    by (simp add: env_of_def config_of_def NewRequest_strict_def status_client_def StatusOK_def
          lodash_data_def)
  then have "\<exists>req0 res d.
         http_NewRequest (env_of ?d) ''GET''
           (''https://www.npmjs.com/browse/depended/'' @ Target ?c) = Inr req0
         \<and> Client ?c (sent w_start) (dependents_request req0) = Inr res
         \<and> StatusCode res = StatusOK
         \<and> json_Decode (env_of ?d) (Body res) = Inr d
         \<and> Dependency d = Target ?c \<and> Packages d \<noteq> [] \<and> [pkg ''b'' 90, pkg ''a'' 95] = Packages d"
    by (intro exI)
  then show ?thesis
    by (rule fetch_dependents_outcomes [THEN conjunct1, THEN iffD2])
qed

section \<open>C2: a redirect to the login page\<close>

text \<open>
  C2, as the code has it. When the scanner's response has status OK and the request that
  produced it, after the redirects, has the path \<open>/login\<close>, \<open>sendToScanner\<close> returns the
  "api key is incorrect" error, and no "unexpected status code" error.
\<close>

theorem login_redirect_with_ok_status:
  "http_NewRequest env ''GET''
     (''https://dprk-research.kmsec.uk/api/scanner/analyse/package/'' @ n) = Inr req0 \<Longrightarrow>
   Client c (sent w) (scanner_request c req0) = Inr res \<Longrightarrow>
   Path (URL (Request res)) = ''/login'' \<Longrightarrow>
   StatusCode res = StatusOK \<Longrightarrow>
   fst (sendToScanner env c n w) = Some ApiKeyIncorrect
   \<and> fst (sendToScanner env c n w) \<noteq> Some (UnexpectedStatus code u)"
  by (simp add: sendToScanner_def scanner_request_def Client_Do_def Let_def)

theorem login_redirect_with_ok_status_witness:
  "fst (sendToScanner (env_of (lodash_data [])) (config_of ''lodash'' (login_client 200)) ''b'' w_start)
     = Some ApiKeyIncorrect"
proof -
  let ?env = "env_of (lodash_data [])"
  let ?c = "config_of ''lodash'' (login_client 200)"
  let ?base = "\<lparr>Method = ''GET'',
      URL = url_of ''https://dprk-research.kmsec.uk/api/scanner/analyse/package/b'', Header = []\<rparr>"
  let ?res = "\<lparr>StatusCode = 200,
      Request = (scanner_request ?c ?base)\<lparr>URL := url_of ''https://dprk-research.kmsec.uk/login''\<rparr>,
      Body = []\<rparr>"
  have nr: "http_NewRequest ?env ''GET''
      (''https://dprk-research.kmsec.uk/api/scanner/analyse/package/'' @ ''b'') = Inr ?base"
    by (simp add: env_of_def NewRequest_strict_def)
  have do: "Client ?c (sent w_start) (scanner_request ?c ?base) = Inr ?res"
    by (simp add: config_of_def login_client_def)
  have path: "Path (URL (Request ?res)) = ''/login''"
    by (simp add: url_of_def)
  have ok: "StatusCode ?res = StatusOK"
    by (simp add: StatusOK_def)
  from login_redirect_with_ok_status [OF nr do path ok] show ?thesis by blast
qed

text \<open>
  The status is looked at first: a login page that answers with a status other than OK
  gives the "unexpected status code" error, although the final path is \<open>/login\<close>.
\<close>

theorem login_redirect_other_status_counterexample:
  "Path (url_of ''https://dprk-research.kmsec.uk/login'') = ''/login''
   \<and> fst (sendToScanner (env_of (lodash_data [])) (config_of ''lodash'' (login_client 401)) ''b''
        w_start)
     = Some (UnexpectedStatus 401 (url_of ''https://dprk-research.kmsec.uk/login''))"
  by (simp add: fixture_defs code_defs)

section \<open>C5 and C10: the cutoff\<close>

text \<open>
  The cutoff read as an integer: exact whenever the exact value fits into \<open>int64\<close>.
\<close>

lemma computeCutoff_sint:
  assumes "- (2 ^ 63) \<le> sint now - sint h * 3600000"
    and "sint now - sint h * 3600000 < 2 ^ 63"
  shows "sint (computeCutoff now h) = sint now - sint h * 3600000"
proof -
  have "computeCutoff now h = word_of_int (sint now - sint h * 3600000)"
    by (simp add: computeCutoff_def Hour_Milliseconds_def)
  then have "sint (computeCutoff now h) = signed_take_bit 63 (sint now - sint h * 3600000)"
    by (simp only: sint_sbintrunc') simp
  also have "\<dots> = sint now - sint h * 3600000"
    using assms by (intro signed_take_bit_int_eq_self) simp_all
  finally show ?thesis .
qed

lemma sint_int64_bounds:
  "- (2 ^ 63) \<le> sint (x :: int64)" "sint (x :: int64) < 2 ^ 63"
  using sint_ge [of x] sint_lt [of x] by simp_all

text \<open>
  C5, as the code has it. For a lookback \<open>h \<ge> 0\<close> for which \<open>now - h * 3600000\<close> is not
  below the least \<open>int64\<close>, the cutoff is exactly that number. For every \<open>now\<close> the
  cutoff of \<open>h = 0\<close> is \<open>now\<close>. Within that range, the cutoff strictly decreases as \<open>h\<close>
  increases. The computation has no error path: \<open>computeCutoff\<close> is a total function
  into \<open>int64\<close>.
\<close>

theorem computeCutoff_exact_in_range:
  "(0 \<le> sint h \<longrightarrow> - (2 ^ 63) \<le> sint now - sint h * 3600000 \<longrightarrow>
      sint (computeCutoff now h) = sint now - sint h * 3600000)
   \<and> computeCutoff now 0 = now
   \<and> (0 \<le> sint h1 \<longrightarrow> sint h1 < sint h2 \<longrightarrow> - (2 ^ 63) \<le> sint now - sint h2 * 3600000 \<longrightarrow>
      computeCutoff now h2 <s computeCutoff now h1)"
proof (intro conjI impI)
  assume "0 \<le> sint h" and lo: "- (2 ^ 63) \<le> sint now - sint h * 3600000"
  then have "sint now - sint h * 3600000 \<le> sint now" by simp
  with sint_int64_bounds(2) [of now] have "sint now - sint h * 3600000 < 2 ^ 63" by linarith
  with lo show "sint (computeCutoff now h) = sint now - sint h * 3600000"
    by (rule computeCutoff_sint)
next
  show "computeCutoff now 0 = now"
    by (simp add: computeCutoff_def)
next
  assume h1: "0 \<le> sint h1" and lt: "sint h1 < sint h2"
    and lo2: "- (2 ^ 63) \<le> sint now - sint h2 * 3600000"
  from lt have m: "sint h1 * 3600000 < sint h2 * 3600000" by simp
  from h1 have "sint now - sint h1 * 3600000 \<le> sint now" by simp
  with sint_int64_bounds(2) [of now] have hi1: "sint now - sint h1 * 3600000 < 2 ^ 63"
    by linarith
  from m hi1 have hi2: "sint now - sint h2 * 3600000 < 2 ^ 63" by linarith
  from m lo2 have lo1: "- (2 ^ 63) \<le> sint now - sint h1 * 3600000" by linarith
  have "sint (computeCutoff now h2) = sint now - sint h2 * 3600000"
    using lo2 hi2 by (rule computeCutoff_sint)
  moreover have "sint (computeCutoff now h1) = sint now - sint h1 * 3600000"
    using lo1 hi1 by (rule computeCutoff_sint)
  ultimately show "computeCutoff now h2 <s computeCutoff now h1"
    using m by (simp add: word_sless_alt)
qed

theorem computeCutoff_exact_in_range_witness:
  "sint (computeCutoff 1700000000000 6) = 1700000000000 - 6 * 3600000
   \<and> computeCutoff 1700000000000 12 <s computeCutoff 1700000000000 6"
proof -
  have a: "(0::int) \<le> sint (6 :: int64)"
    and b: "- (2 ^ 63) \<le> sint (1700000000000 :: int64) - sint (6 :: int64) * 3600000"
    and c: "sint (6 :: int64) < sint (12 :: int64)"
    and d: "- (2 ^ 63) \<le> sint (1700000000000 :: int64) - sint (12 :: int64) * 3600000"
    by simp_all
  from computeCutoff_exact_in_range [of 6 1700000000000 6 12] a b c d
  have "sint (computeCutoff 1700000000000 6)
          = sint (1700000000000 :: int64) - sint (6 :: int64) * 3600000"
    and "computeCutoff 1700000000000 12 <s computeCutoff 1700000000000 6"
    by blast+
  then show ?thesis by simp
qed

text \<open>
  Beyond that range the multiplication wraps around: at \<open>now = 1700000000000\<close> the
  greatest \<open>int64\<close> lookback gives the cutoff \<open>now + 3600000\<close>, which is not
  \<open>now - h * 3600000\<close> and is greater than the cutoff of the lookback 0.
\<close>

theorem computeCutoff_wraps_counterexample:
  "(0 :: int64) <s 9223372036854775807
   \<and> computeCutoff 1700000000000 9223372036854775807 = 1700003600000
   \<and> sint (computeCutoff 1700000000000 9223372036854775807)
       \<noteq> sint (1700000000000 :: int64) - sint (9223372036854775807 :: int64) * 3600000
   \<and> computeCutoff 1700000000000 0 <s computeCutoff 1700000000000 9223372036854775807"
  by (simp add: computeCutoff_def Hour_Milliseconds_def word_sless_alt)





text \<open>
  The bound on the lookback below is needed: beyond it the multiplication wraps around,
  and the cutoff of a negative lookback is not above \<open>now\<close>.
\<close>

lemma computeCutoff_negative_wraps:
  "(- 9223372036854775807 :: int64) <s 0
   \<and> \<not> 1700000000000 <s computeCutoff 1700000000000 (- 9223372036854775807)"
  by (simp add: computeCutoff_def Hour_Milliseconds_def word_sless_alt)





end
